theory Spec2Isabelle
  imports Main
begin

section \<open>The reshard strategy registry\<close>

text \<open>
  \<^verbatim>\<open>reshard_func_register.py\<close> imports seven strategy classes and registers one
  instance of each, in a fixed order, by a module-level call of
  \<^verbatim>\<open>register_reshard_funcs()\<close>. A registered instance is stateless, so it is
  identified by its class.
\<close>

datatype reshard_func =
    PToRReshardFunction
  | PToRReshardFunctionCrossMesh
  | RToSReshardFunction
  | RToSReshardFunctionCrossMesh
  | SameStatusReshardFunction
  | SToRReshardFunction
  | SToRReshardFunctionCrossMesh

text \<open>
  Modelled from the spec: \<^verbatim>\<open>register_reshard_func\<close> lives in
  \<^verbatim>\<open>base_reshard_func.py\<close>, which is not among the sources. The spec gives its
  contract: "appends a strategy to the ordered list". The registry is that ordered list.
\<close>

definition register_reshard_func :: "'s list \<Rightarrow> 's \<Rightarrow> 's list" where
  "register_reshard_func registry strategy = registry @ [strategy]"

text \<open>
  \<^verbatim>\<open>register_reshard_funcs\<close> (lines 31--38): seven calls of the imported
  \<^verbatim>\<open>register_reshard_func\<close>, one after the other, each on the registry the previous
  call left. The imported function is the first argument, the registry before the calls
  the second.
\<close>

definition register_reshard_funcs :: "('g \<Rightarrow> reshard_func \<Rightarrow> 'g) \<Rightarrow> 'g \<Rightarrow> 'g" where
  "register_reshard_funcs register_func g0 =
     (let g1 = register_func g0 PToRReshardFunction;
          g2 = register_func g1 PToRReshardFunctionCrossMesh;
          g3 = register_func g2 RToSReshardFunction;
          g4 = register_func g3 RToSReshardFunctionCrossMesh;
          g5 = register_func g4 SameStatusReshardFunction;
          g6 = register_func g5 SToRReshardFunction;
          g7 = register_func g6 SToRReshardFunctionCrossMesh
      in g7)"

text \<open>
  Modelled from the spec: the registry before startup. The list itself is created in
  \<^verbatim>\<open>base_reshard_func.py\<close>; the spec says it is "populated once at startup", so it
  starts empty.
\<close>

definition empty_registry :: "reshard_func list" where
  "empty_registry = []"

text \<open>The registry once the module body (line 41) has run on the empty registry.\<close>

definition startup_registry :: "reshard_func list" where
  "startup_registry = register_reshard_funcs register_reshard_func empty_registry"

text \<open>Position of the first occurrence of an entry, and the number of its occurrences.\<close>

fun index_of :: "'a list \<Rightarrow> 'a \<Rightarrow> nat option" where
  "index_of [] x = None"
| "index_of (y # ys) x = (if y = x then Some 0 else map_option Suc (index_of ys x))"

definition registered_after :: "'a list \<Rightarrow> 'a \<Rightarrow> 'a \<Rightarrow> bool" where
  "registered_after registry later earlier =
     (case index_of registry earlier of
        None \<Rightarrow> False
      | Some i \<Rightarrow> (case index_of registry later of None \<Rightarrow> False | Some j \<Rightarrow> i < j))"

subsection \<open>The registry over the life of a process\<close>

text \<open>
  The module body of \<^verbatim>\<open>reshard_func_register.py\<close> is the imports, the definition of
  \<^verbatim>\<open>register_reshard_funcs\<close> and one call of it (line 41). Python runs a module body
  at the first import of the module in a process; a later import finds the module loaded
  and runs nothing. The process state is whether the module is loaded, and the registry.
\<close>

record process_state =
  loaded :: bool
  registered :: "reshard_func list"

definition initial_process :: process_state where
  "initial_process = \<lparr>loaded = False, registered = empty_registry\<rparr>"

definition import_module :: "process_state \<Rightarrow> process_state" where
  "import_module st =
     (if loaded st then st
      else st\<lparr>loaded := True,
              registered := register_reshard_funcs register_reshard_func (registered st)\<rparr>)"

text \<open>
  What a process can do to the registry afterwards: import the module again; ask the
  registry for a strategy (the spec's \<^verbatim>\<open>reshard\<close> entry point, which only reads the
  list); call \<^verbatim>\<open>register_reshard_funcs\<close> again, which the module defines as an ordinary
  function with no guard (lines 31--38); or call the imported \<^verbatim>\<open>register_reshard_func\<close>
  with a strategy.
\<close>

datatype process_event =
    ImportModule
  | ReshardCall
  | RegisterFuncsCall
  | RegisterCall reshard_func

fun is_registration :: "process_event \<Rightarrow> bool" where
  "is_registration ImportModule = False"
| "is_registration ReshardCall = False"
| "is_registration RegisterFuncsCall = True"
| "is_registration (RegisterCall s) = True"

fun process_step :: "process_state \<Rightarrow> process_event \<Rightarrow> process_state" where
  "process_step st ImportModule = import_module st"
| "process_step st ReshardCall = st"
| "process_step st RegisterFuncsCall =
     st\<lparr>registered := register_reshard_funcs register_reshard_func (registered st)\<rparr>"
| "process_step st (RegisterCall s) =
     st\<lparr>registered := register_reshard_func (registered st) s\<rparr>"

definition run_process :: "process_state \<Rightarrow> process_event list \<Rightarrow> process_state" where
  "run_process st events = foldl process_step st events"


section \<open>The compiled-function cache\<close>

subsection \<open>Tensors and their names\<close>

text \<open>
  The tensor class is not among the sources. \<^verbatim>\<open>compile_cache.py\<close> touches one thing of
  a tensor, its \<^verbatim>\<open>name\<close> attribute, and only by assigning to it. The attribute is a
  property of the class: what an assignment stores and what a later read returns are the
  class's setter and getter, taken as parameters (\<open>set_tensor_name\<close> and
  \<open>get_tensor_name\<close> below).

  \<^verbatim>\<open>clear_eager_tensor_name\<close> (lines 36--38): the loop assigns the empty string to the
  name of each tensor. Its first argument is the setter.
\<close>

fun clear_eager_tensor_name :: "('t \<Rightarrow> string \<Rightarrow> 't) \<Rightarrow> 't list \<Rightarrow> 't list" where
  "clear_eager_tensor_name assign_name [] = []"
| "clear_eager_tensor_name assign_name (output_tensor # output_tensors) =
     assign_name output_tensor '''' # clear_eager_tensor_name assign_name output_tensors"


subsection \<open>FallbackWrapper\<close>

text \<open>A Python exception, by the name of its class.\<close>

type_synonym exn = string

text \<open>The attributes \<^verbatim>\<open>__init__\<close> (lines 46--50) gives a wrapper.\<close>

record ('cfn, 'pp, 'cp, 'sir) fallback_wrapper =
  compiled_fn :: 'cfn
  partial_program :: "'pp option"
  concrete_program :: "'cp option"
  SIR :: 'sir

definition FallbackWrapper_init :: "'cfn \<Rightarrow> 'sir \<Rightarrow> ('cfn, 'pp, 'cp, 'sir) fallback_wrapper" where
  "FallbackWrapper_init cfn sir =
     \<lparr>compiled_fn = cfn, partial_program = None, concrete_program = None, SIR = sir\<rparr>"

text \<open>
  What \<^verbatim>\<open>__call__\<close> uses and the file does not define: calling the static function
  \<^verbatim>\<open>compiled_fn\<close>, its method \<^verbatim>\<open>get_concrete_program\<close>, calling a partial program,
  assigning to and reading the \<^verbatim>\<open>name\<close> of a tensor, the flag
  \<^verbatim>\<open>StepInfoManager().need_back_trace\<close> and the log level that \<^verbatim>\<open>log_do\<close>
  compares its first argument with. Each call either raises or returns. The
  \<^verbatim>\<open>EventGuard\<close> blocks only time the code inside them for the profiler and are left out.
\<close>

record ('cfn, 'args, 'cp, 'pp, 't) runtime =
  call_compiled_fn :: "'cfn \<Rightarrow> 'args \<Rightarrow> exn + 't list"
  get_concrete_program :: "'cfn \<Rightarrow> 'args \<Rightarrow> exn + ('cp \<times> 'pp)"
  call_partial_program :: "'pp \<Rightarrow> 'args \<Rightarrow> exn + 't list"
  set_tensor_name :: "'t \<Rightarrow> string \<Rightarrow> 't"
  get_tensor_name :: "'t \<Rightarrow> string"
  need_back_trace :: bool
  log_level :: nat

text \<open>What one invocation does, in order: the calls it makes and the lines it logs.\<close>

datatype ('pp, 'cp, 'sir) call_event =
    TraceBackFrames
  | PrintSIR 'sir
  | LogGetConcreteProgram
  | PrintTrainProgram 'pp
  | CallCompiledFn
  | GetConcreteProgram
  | CallPartialProgram 'pp
  | AddSubgraph 'cp
  | PrintSuccess

text \<open>\<^verbatim>\<open>log_do(level, fn)\<close> runs \<^verbatim>\<open>fn\<close> when the log level is at least \<^verbatim>\<open>level\<close>.\<close>

definition log_do :: "nat \<Rightarrow> nat \<Rightarrow> 'e list \<Rightarrow> 'e list" where
  "log_do current level events = (if level \<le> current then events else [])"

text \<open>
  Lines 61--68: at log level 4 the train program of
  \<^verbatim>\<open>self.compiled_fn.get_concrete_program(*args, **kwargs)[1]\<close> is printed.
\<close>

definition log_train_program ::
  "('cfn, 'args, 'cp, 'pp, 't) runtime \<Rightarrow> ('cfn, 'pp, 'cp, 'sir) fallback_wrapper \<Rightarrow> 'args \<Rightarrow>
   exn + ('pp, 'cp, 'sir) call_event list" where
  "log_train_program rt w args =
     (if 4 \<le> log_level rt then
        (case get_concrete_program rt (compiled_fn w) args of
           Inl e \<Rightarrow> Inl e
         | Inr (cp, pp) \<Rightarrow> Inr [LogGetConcreteProgram, PrintTrainProgram pp])
      else Inr [])"

text \<open>
  Lines 69--79: without a stored partial program the static function is called and its
  concrete program and partial program are stored; with one, the stored partial program
  is called. An exception leaves the attributes as they were.
\<close>

definition run_program ::
  "('cfn, 'args, 'cp, 'pp, 't) runtime \<Rightarrow> ('cfn, 'pp, 'cp, 'sir) fallback_wrapper \<Rightarrow> 'args \<Rightarrow>
   ('cfn, 'pp, 'cp, 'sir) fallback_wrapper \<times> ('pp, 'cp, 'sir) call_event list
     \<times> (exn + 't list)" where
  "run_program rt w args =
     (case partial_program w of
        None \<Rightarrow>
          (case call_compiled_fn rt (compiled_fn w) args of
             Inl e \<Rightarrow> (w, [CallCompiledFn], Inl e)
           | Inr outputs \<Rightarrow>
               (case get_concrete_program rt (compiled_fn w) args of
                  Inl e \<Rightarrow> (w, [CallCompiledFn, GetConcreteProgram], Inl e)
                | Inr (cp, pp) \<Rightarrow>
                    (w\<lparr>concrete_program := Some cp, partial_program := Some pp\<rparr>,
                     [CallCompiledFn, GetConcreteProgram], Inr outputs)))
      | Some pp \<Rightarrow> (w, [CallPartialProgram pp], call_partial_program rt pp args))"

text \<open>
  Lines 82--87: at log level 1 \<^verbatim>\<open>self.concrete_program.main_program\<close> goes to the graph
  logger; reading the attribute of \<^verbatim>\<open>None\<close> raises.
\<close>

definition log_subgraph ::
  "('cfn, 'args, 'cp, 'pp, 't) runtime \<Rightarrow> ('cfn, 'pp, 'cp, 'sir) fallback_wrapper \<Rightarrow>
   exn + ('pp, 'cp, 'sir) call_event list" where
  "log_subgraph rt w =
     (if 1 \<le> log_level rt then
        (case concrete_program w of
           None \<Rightarrow> Inl ''AttributeError''
         | Some cp \<Rightarrow> Inr [AddSubgraph cp])
      else Inr [])"

text \<open>
  \<^verbatim>\<open>__call__\<close> (lines 52--92). The result is the wrapper after the call, the events of
  the call and either the exception raised or the outputs returned.
\<close>

definition fallback_call ::
  "('cfn, 'args, 'cp, 'pp, 't) runtime \<Rightarrow> ('cfn, 'pp, 'cp, 'sir) fallback_wrapper \<Rightarrow> 'args \<Rightarrow>
   ('cfn, 'pp, 'cp, 'sir) fallback_wrapper \<times> ('pp, 'cp, 'sir) call_event list
     \<times> (exn + 't list)" where
  "fallback_call rt w args =
     (let ev0 = (if need_back_trace rt then [TraceBackFrames] else [])
                @ log_do (log_level rt) 2 [PrintSIR (SIR w)]
      in case log_train_program rt w args of
           Inl e \<Rightarrow> (w, ev0 @ [LogGetConcreteProgram], Inl e)
         | Inr ev1 \<Rightarrow>
             (case run_program rt w args of
                (w', ev2, Inl e) \<Rightarrow> (w', ev0 @ ev1 @ ev2, Inl e)
              | (w', ev2, Inr outputs) \<Rightarrow>
                  (let outputs' = clear_eager_tensor_name (set_tensor_name rt) outputs
                   in case log_subgraph rt w' of
                        Inl e \<Rightarrow> (w', ev0 @ ev1 @ ev2, Inl e)
                      | Inr ev3 \<Rightarrow>
                          (w', ev0 @ ev1 @ ev2 @ ev3 @ log_do (log_level rt) 4 [PrintSuccess],
                           Inr outputs'))))"

text \<open>
  A wrapper called again and again, each call on the wrapper the previous call left,
  whether that call returned or raised.
\<close>

fun fallback_calls ::
  "('cfn, 'args, 'cp, 'pp, 't) runtime \<Rightarrow> ('cfn, 'pp, 'cp, 'sir) fallback_wrapper \<Rightarrow> 'args list \<Rightarrow>
   ('cfn, 'pp, 'cp, 'sir) fallback_wrapper \<times> ('pp, 'cp, 'sir) call_event list" where
  "fallback_calls rt w [] = (w, [])"
| "fallback_calls rt w (args # rest) =
     (case fallback_call rt w args of
        (w', ev, r) \<Rightarrow> (case fallback_calls rt w' rest of (w'', evs) \<Rightarrow> (w'', ev @ evs)))"

subsection \<open>CompileSIRCache\<close>

text \<open>
  What \<^verbatim>\<open>key_fn\<close> and \<^verbatim>\<open>value_fn\<close> use and the file does not define: the context's
  \<^verbatim>\<open>get_sir\<close> (it may raise), Python's \<^verbatim>\<open>str\<close> on a SIR and \<^verbatim>\<open>hash\<close> on a string,
  \<^verbatim>\<open>compile_sir\<close> and \<^verbatim>\<open>paddle.jit.to_static\<close> with its keyword arguments
  \<^verbatim>\<open>build_strategy\<close>, \<^verbatim>\<open>backend\<close> and \<^verbatim>\<open>enable_fallback\<close>.
\<close>

record ('ctx, 'sir, 'fn, 'opt, 'cfn) symbolic_env =
  get_sir :: "'ctx \<Rightarrow> string \<Rightarrow> exn + 'sir"
  py_str :: "'sir \<Rightarrow> string"
  py_hash :: "string \<Rightarrow> int"
  compile_sir :: "'ctx \<Rightarrow> string \<Rightarrow> 'fn"
  to_static :: "'fn \<Rightarrow> 'opt option \<Rightarrow> 'opt option \<Rightarrow> bool \<Rightarrow> 'cfn"

text \<open>\<^verbatim>\<open>key_fn\<close> (lines 104--119). The keyword arguments are a dictionary.\<close>

definition key_fn ::
  "('ctx, 'sir, 'fn, 'opt, 'cfn) symbolic_env \<Rightarrow> 'ctx \<Rightarrow> string \<Rightarrow> (string \<rightharpoonup> 'opt) \<Rightarrow> exn + int" where
  "key_fn env context sir_name kwargs =
     (case get_sir env context sir_name of
        Inl e \<Rightarrow> Inl e
      | Inr sir \<Rightarrow> (let hash_key = py_hash env (py_str env sir) in Inr hash_key))"

text \<open>
  \<^verbatim>\<open>value_fn\<close> (lines 121--143). \<^verbatim>\<open>kwargs.get(k, None)\<close> is the entry under \<^verbatim>\<open>k\<close>, or
  \<^verbatim>\<open>None\<close>.
\<close>

definition value_fn ::
  "('ctx, 'sir, 'fn, 'opt, 'cfn) symbolic_env \<Rightarrow> 'ctx \<Rightarrow> string \<Rightarrow> (string \<rightharpoonup> 'opt) \<Rightarrow>
   exn + ('cfn, 'pp, 'cp, 'sir) fallback_wrapper" where
  "value_fn env context sir_name kwargs =
     (let build_strategy = kwargs ''build_strategy'';
          backend = kwargs ''backend'';
          static_fn = to_static env (compile_sir env context sir_name) build_strategy backend False
      in case get_sir env context sir_name of
           Inl e \<Rightarrow> Inl e
         | Inr sir \<Rightarrow> Inr (FallbackWrapper_init static_fn sir))"

text \<open>
  Modelled from the spec: the base class \<^verbatim>\<open>Cache\<close> is in \<^verbatim>\<open>..utils\<close>, which is not
  among the sources. The spec calls it "a pure memoization layer with
  single-producer-per-key semantics": a call computes the key; a key already in the
  cache returns the stored value; otherwise the value is produced by \<^verbatim>\<open>value_fn\<close>,
  stored under the key and returned.
\<close>

definition cache_call ::
  "('ctx, 'sir, 'fn, 'opt, 'cfn) symbolic_env \<Rightarrow> (int \<rightharpoonup> ('cfn, 'pp, 'cp, 'sir) fallback_wrapper) \<Rightarrow>
   'ctx \<Rightarrow> string \<Rightarrow> (string \<rightharpoonup> 'opt) \<Rightarrow>
   (int \<rightharpoonup> ('cfn, 'pp, 'cp, 'sir) fallback_wrapper) \<times> (exn + ('cfn, 'pp, 'cp, 'sir) fallback_wrapper)" where
  "cache_call env cache context sir_name kwargs =
     (case key_fn env context sir_name kwargs of
        Inl e \<Rightarrow> (cache, Inl e)
      | Inr k \<Rightarrow>
          (case cache k of
             Some v \<Rightarrow> (cache, Inr v)
           | None \<Rightarrow>
               (case value_fn env context sir_name kwargs of
                  Inl e \<Rightarrow> (cache, Inl e)
                | Inr v \<Rightarrow> (cache(k \<mapsto> v), Inr v))))"


section \<open>Registration at startup\<close>

lemma register_reshard_funcs_calls:
  "register_reshard_funcs register_func g =
     foldl register_func g
       [PToRReshardFunction, PToRReshardFunctionCrossMesh,
        RToSReshardFunction, RToSReshardFunctionCrossMesh,
        SameStatusReshardFunction,
        SToRReshardFunction, SToRReshardFunctionCrossMesh]"
  by (simp add: register_reshard_funcs_def)

lemma register_reshard_funcs_append:
  "register_reshard_funcs register_reshard_func g =
     g @ [PToRReshardFunction, PToRReshardFunctionCrossMesh,
          RToSReshardFunction, RToSReshardFunctionCrossMesh,
          SameStatusReshardFunction,
          SToRReshardFunction, SToRReshardFunctionCrossMesh]"
  by (simp add: register_reshard_funcs_def register_reshard_func_def)

lemma startup_registry_eq:
  "startup_registry =
     [PToRReshardFunction, PToRReshardFunctionCrossMesh,
      RToSReshardFunction, RToSReshardFunctionCrossMesh,
      SameStatusReshardFunction,
      SToRReshardFunction, SToRReshardFunctionCrossMesh]"
  by (simp add: startup_registry_def empty_registry_def register_reshard_funcs_append)

text \<open>
  C2. The startup registration is seven calls of \<^verbatim>\<open>register_reshard_func\<close>, one per
  strategy. After it the registry holds exactly seven entries: the three single-mesh
  strategies Partial-to-Replicated, Replicated-to-Sharded and Sharded-to-Replicated, the
  Same-Status strategy, and the cross-mesh variant of each of the first three; every
  strategy has one entry and nothing else is registered.
\<close>

theorem startup_registry_exactly_seven:
  "register_reshard_funcs register_func g =
     foldl register_func g
       [PToRReshardFunction, PToRReshardFunctionCrossMesh,
        RToSReshardFunction, RToSReshardFunctionCrossMesh,
        SameStatusReshardFunction,
        SToRReshardFunction, SToRReshardFunctionCrossMesh]
   \<and> startup_registry =
     [PToRReshardFunction, PToRReshardFunctionCrossMesh,
      RToSReshardFunction, RToSReshardFunctionCrossMesh,
      SameStatusReshardFunction,
      SToRReshardFunction, SToRReshardFunctionCrossMesh]
   \<and> length startup_registry = 7
   \<and> distinct startup_registry
   \<and> set startup_registry =
       {PToRReshardFunction, RToSReshardFunction, SToRReshardFunction,
        SameStatusReshardFunction,
        PToRReshardFunctionCrossMesh, RToSReshardFunctionCrossMesh,
        SToRReshardFunctionCrossMesh}
   \<and> count_list startup_registry PToRReshardFunction = 1
   \<and> count_list startup_registry RToSReshardFunction = 1
   \<and> count_list startup_registry SToRReshardFunction = 1
   \<and> count_list startup_registry SameStatusReshardFunction = 1
   \<and> count_list startup_registry PToRReshardFunctionCrossMesh = 1
   \<and> count_list startup_registry RToSReshardFunctionCrossMesh = 1
   \<and> count_list startup_registry SToRReshardFunctionCrossMesh = 1"
  unfolding startup_registry_eq register_reshard_funcs_calls by (simp add: insert_commute)

text \<open>
  C3. Registering a strategy appends it at the end of the ordered list: the entries
  already there keep their places and the new one is last. In the order the startup
  registration produces, each cross-mesh strategy stands strictly after its single-mesh
  counterpart.
\<close>

theorem register_appends_cross_mesh_after_single_mesh:
  "register_reshard_func registry strategy = registry @ [strategy]
   \<and> length (register_reshard_func registry strategy) = Suc (length registry)
   \<and> take (length registry) (register_reshard_func registry strategy) = registry
   \<and> last (register_reshard_func registry strategy) = strategy
   \<and> registered_after startup_registry PToRReshardFunctionCrossMesh PToRReshardFunction
   \<and> registered_after startup_registry RToSReshardFunctionCrossMesh RToSReshardFunction
   \<and> registered_after startup_registry SToRReshardFunctionCrossMesh SToRReshardFunction
   \<and> index_of startup_registry PToRReshardFunction = Some 0
   \<and> index_of startup_registry PToRReshardFunctionCrossMesh = Some 1
   \<and> index_of startup_registry RToSReshardFunction = Some 2
   \<and> index_of startup_registry RToSReshardFunctionCrossMesh = Some 3
   \<and> index_of startup_registry SToRReshardFunction = Some 5
   \<and> index_of startup_registry SToRReshardFunctionCrossMesh = Some 6"
  unfolding startup_registry_eq
  by (simp add: register_reshard_func_def registered_after_def)


section \<open>The registry after startup\<close>

lemma import_module_initial:
  "import_module initial_process = \<lparr>loaded = True, registered = startup_registry\<rparr>"
  by (simp add: import_module_def initial_process_def startup_registry_def)

lemma count_startup_registry: "count_list startup_registry s = 1"
  unfolding startup_registry_eq by (cases s) simp_all

lemma process_step_read_only:
  "loaded st \<Longrightarrow> \<not> is_registration e \<Longrightarrow> process_step st e = st"
  by (cases e) (simp_all add: import_module_def)

lemma run_process_read_only:
  "loaded st \<Longrightarrow> list_all (\<lambda>e. \<not> is_registration e) events \<Longrightarrow> run_process st events = st"
  unfolding run_process_def
  by (induction events) (simp_all add: process_step_read_only)

lemma process_step_registration:
  "is_registration e \<Longrightarrow>
   loaded (process_step st e) = loaded st
   \<and> length (registered st) < length (registered (process_step st e))"
  by (cases e) (simp_all add: register_reshard_funcs_append register_reshard_func_def)

lemma run_process_grows:
  "loaded st \<Longrightarrow>
   loaded (run_process st events)
   \<and> length (registered st) \<le> length (registered (run_process st events))"
proof (induction events arbitrary: st)
  case Nil
  then show ?case by (simp add: run_process_def)
next
  case (Cons e events)
  have r: "run_process st (e # events) = run_process (process_step st e) events"
    by (simp add: run_process_def)
  show ?case
  proof (cases "is_registration e")
    case True
    from process_step_registration [OF True, of st] Cons.prems
    have l: "loaded (process_step st e)"
      and g: "length (registered st) < length (registered (process_step st e))"
      by simp_all
    from Cons.IH [OF l] g r show ?thesis by simp
  next
    case False
    with Cons.prems have "process_step st e = st" by (simp add: process_step_read_only)
    with Cons.IH [OF Cons.prems] r show ?thesis by simp
  qed
qed

lemma run_process_registration:
  "loaded st \<Longrightarrow> \<not> list_all (\<lambda>e. \<not> is_registration e) events \<Longrightarrow>
   length (registered st) < length (registered (run_process st events))"
proof (induction events arbitrary: st)
  case Nil
  then show ?case by simp
next
  case (Cons e events)
  have r: "run_process st (e # events) = run_process (process_step st e) events"
    by (simp add: run_process_def)
  show ?case
  proof (cases "is_registration e")
    case True
    from process_step_registration [OF True, of st] Cons.prems(1)
    have l: "loaded (process_step st e)"
      and g: "length (registered st) < length (registered (process_step st e))"
      by simp_all
    from run_process_grows [OF l, of events] g r show ?thesis by simp
  next
    case False
    with Cons.prems(1) have s: "process_step st e = st" by (simp add: process_step_read_only)
    from False Cons.prems(2) have "\<not> list_all (\<lambda>e. \<not> is_registration e) events" by simp
    from Cons.IH [OF Cons.prems(1) this] r s show ?thesis by simp
  qed
qed

text \<open>
  After startup nothing keeps the registry from changing: a second call of
  \<^verbatim>\<open>register_reshard_funcs\<close> registers the seven strategies again and leaves fourteen
  entries.
\<close>

theorem registry_second_registration_counterexample:
  "registered (run_process (import_module initial_process) [RegisterFuncsCall])
     = startup_registry @ startup_registry
   \<and> length (registered (run_process (import_module initial_process) [RegisterFuncsCall])) = 14
   \<and> count_list (registered (run_process (import_module initial_process) [RegisterFuncsCall]))
        SameStatusReshardFunction = 2
   \<and> registered (run_process (import_module initial_process) [RegisterFuncsCall])
     \<noteq> registered (import_module initial_process)"
  by (simp add: run_process_def import_module_initial register_reshard_funcs_append
      startup_registry_eq)

text \<open>
  C6. The registry is populated when the module is first imported, by the one
  module-level call, which registers each strategy once; importing the module again
  registers nothing. The registry is not read-only afterwards: a later call of
  \<^verbatim>\<open>register_reshard_func\<close> appends its strategy and a later call of
  \<^verbatim>\<open>register_reshard_funcs\<close> appends all seven again. Over any sequence of imports,
  dispatch requests and registration calls after startup, the registry still holds the
  startup entries exactly when the sequence has no registration call.
\<close>

theorem registry_populated_at_import_not_frozen:
  "registered (import_module initial_process) = startup_registry
   \<and> loaded (import_module initial_process)
   \<and> (\<forall>s. count_list (registered (import_module initial_process)) s = 1)
   \<and> import_module (import_module initial_process) = import_module initial_process
   \<and> registered (process_step st (RegisterCall s)) = registered st @ [s]
   \<and> registered (process_step st RegisterFuncsCall) = registered st @ startup_registry
   \<and> (registered (run_process (import_module initial_process) events) = startup_registry
        \<longleftrightarrow> list_all (\<lambda>e. \<not> is_registration e) events)"
proof -
  have l: "loaded (import_module initial_process)"
    by (simp add: import_module_initial)
  have r: "registered (import_module initial_process) = startup_registry"
    by (simp add: import_module_initial)
  have i: "import_module (import_module initial_process) = import_module initial_process"
    using l by (simp add: import_module_def)
  have a: "registered (process_step st (RegisterCall s)) = registered st @ [s]"
    by (simp add: register_reshard_func_def)
  have b: "registered (process_step st RegisterFuncsCall) = registered st @ startup_registry"
    by (simp add: register_reshard_funcs_append startup_registry_eq)
  have k: "registered (run_process (import_module initial_process) events) = startup_registry
        \<longleftrightarrow> list_all (\<lambda>e. \<not> is_registration e) events"
  proof
    assume e: "registered (run_process (import_module initial_process) events) = startup_registry"
    show "list_all (\<lambda>e. \<not> is_registration e) events"
    proof (rule ccontr)
      assume "\<not> list_all (\<lambda>e. \<not> is_registration e) events"
      from run_process_registration [OF l this] e r show False by simp
    qed
  next
    assume "list_all (\<lambda>e. \<not> is_registration e) events"
    from run_process_read_only [OF l this] r
    show "registered (run_process (import_module initial_process) events) = startup_registry"
      by simp
  qed
  from l r i a b k show ?thesis
    by (simp add: count_startup_registry)
qed

theorem registry_populated_at_import_not_frozen_witness:
  "registered (run_process (import_module initial_process)
     [ImportModule, ReshardCall, ImportModule]) = startup_registry
   \<and> list_all (\<lambda>e. \<not> is_registration e) [ImportModule, ReshardCall, ImportModule]
   \<and> registered (run_process (import_module initial_process)
     [ReshardCall, RegisterCall SameStatusReshardFunction]) \<noteq> startup_registry
   \<and> \<not> list_all (\<lambda>e. \<not> is_registration e) [ReshardCall, RegisterCall SameStatusReshardFunction]"
  using
    registry_populated_at_import_not_frozen [of
      _ _ "[ImportModule, ReshardCall, ImportModule]"]
    registry_populated_at_import_not_frozen [of
      _ _ "[ReshardCall, RegisterCall SameStatusReshardFunction]"]
  by simp

section \<open>FallbackWrapper: one compilation, names assigned empty\<close>

lemma clear_eager_tensor_name_map:
  "clear_eager_tensor_name assign_name outputs = map (\<lambda>t. assign_name t '''') outputs"
  by (induction outputs) simp_all

lemma run_program_stored:
  "partial_program w = Some pp \<Longrightarrow>
   run_program rt w args = (w, [CallPartialProgram pp], call_partial_program rt pp args)"
  by (simp add: run_program_def)

lemma log_train_program_cases:
  "log_train_program rt w args = Inr ev1 \<Longrightarrow>
   ev1 = [] \<or> (\<exists>pp. ev1 = [LogGetConcreteProgram, PrintTrainProgram pp])"
  by (auto simp: log_train_program_def split: if_splits sum.splits)

lemma log_train_program_fails:
  "log_train_program rt w args = Inl e \<Longrightarrow>
   4 \<le> log_level rt \<and> get_concrete_program rt (compiled_fn w) args = Inl e"
  by (auto simp: log_train_program_def split: if_splits sum.splits)

lemma log_subgraph_cases:
  "log_subgraph rt w = Inr ev3 \<Longrightarrow> ev3 = [] \<or> (\<exists>cp. ev3 = [AddSubgraph cp])"
  by (auto simp: log_subgraph_def split: if_splits option.splits)

lemma fallback_call_stored:
  assumes "partial_program w = Some pp"
  shows "\<exists>ev r. fallback_call rt w args = (w, ev, r)
      \<and> CallCompiledFn \<notin> set ev \<and> GetConcreteProgram \<notin> set ev"
proof (cases "log_train_program rt w args")
  case (Inl e)
  then show ?thesis
    by (simp add: fallback_call_def log_do_def)
next
  case (Inr ev1)
  note t = log_train_program_cases [OF Inr]
  show ?thesis
  proof (cases "call_partial_program rt pp args")
    case (Inl e)
    with Inr t assms show ?thesis
      by (auto simp: fallback_call_def run_program_stored log_do_def)
  next
    case r: (Inr raw)
    show ?thesis
    proof (cases "log_subgraph rt w")
      case (Inl e)
      with Inr r t assms show ?thesis
        by (auto simp: fallback_call_def run_program_stored log_do_def)
    next
      case s: (Inr ev3)
      note log_subgraph_cases [OF s]
      with Inr r s t assms show ?thesis
        by (auto simp: fallback_call_def run_program_stored log_do_def)
    qed
  qed
qed

lemma fallback_call_stored_runs:
  assumes "partial_program w = Some pp"
    and "log_level rt < 4 \<or> (\<exists>x. get_concrete_program rt (compiled_fn w) args = Inr x)"
  shows "CallPartialProgram pp \<in> set (fst (snd (fallback_call rt w args)))"
proof (cases "log_train_program rt w args")
  case (Inl e)
  from log_train_program_fails [OF Inl] assms(2) show ?thesis by auto
next
  case (Inr ev1)
  show ?thesis
  proof (cases "call_partial_program rt pp args")
    case (Inl e)
    with Inr assms(1) show ?thesis
      by (simp add: fallback_call_def run_program_stored)
  next
    case r: (Inr raw)
    with Inr assms(1) show ?thesis
      by (cases "log_subgraph rt w") (simp_all add: fallback_call_def run_program_stored)
  qed
qed

lemma fallback_call_result:
  assumes "fallback_call rt w args = (w', ev, Inr outputs)"
  shows "\<exists>ev2 raw. run_program rt w args = (w', ev2, Inr raw)
           \<and> outputs = clear_eager_tensor_name (set_tensor_name rt) raw"
proof (cases "log_train_program rt w args")
  case (Inl e)
  with assms show ?thesis by (simp add: fallback_call_def)
next
  case (Inr ev1)
  obtain w2 ev2 r where rp: "run_program rt w args = (w2, ev2, r)"
    by (cases "run_program rt w args") auto
  show ?thesis
  proof (cases r)
    case (Inl e)
    with assms Inr rp show ?thesis by (simp add: fallback_call_def)
  next
    case raw: (Inr raw)
    with assms Inr rp show ?thesis
      by (cases "log_subgraph rt w2") (simp_all add: fallback_call_def)
  qed
qed

lemma run_program_first:
  assumes "partial_program w = None" and "run_program rt w args = (w', ev, Inr raw)"
  shows "\<exists>cp pp. get_concrete_program rt (compiled_fn w) args = Inr (cp, pp)
     \<and> call_compiled_fn rt (compiled_fn w) args = Inr raw
     \<and> w' = w\<lparr>concrete_program := Some cp, partial_program := Some pp\<rparr>"
proof (cases "call_compiled_fn rt (compiled_fn w) args")
  case (Inl e)
  with assms show ?thesis by (simp add: run_program_def)
next
  case c: (Inr outs)
  show ?thesis
  proof (cases "get_concrete_program rt (compiled_fn w) args")
    case (Inl e)
    with assms c show ?thesis by (simp add: run_program_def)
  next
    case (Inr p)
    with assms c show ?thesis by (cases p) (auto simp: run_program_def)
  qed
qed

lemma fallback_call_first:
  assumes "partial_program w = None"
    and "call_compiled_fn rt (compiled_fn w) args = Inr raw"
    and "get_concrete_program rt (compiled_fn w) args = Inr (cp, pp)"
  shows "fst (fallback_call rt w args) = w\<lparr>concrete_program := Some cp, partial_program := Some pp\<rparr>"
    and "snd (snd (fallback_call rt w args)) = Inr (clear_eager_tensor_name (set_tensor_name rt) raw)"
  using assms
  by (simp_all add: fallback_call_def run_program_def log_train_program_def log_subgraph_def)

lemma fallback_calls_stored:
  "partial_program w = Some pp \<Longrightarrow>
   fst (fallback_calls rt w argss) = w \<and> CallCompiledFn \<notin> set (snd (fallback_calls rt w argss))"
proof (induction argss)
  case Nil
  then show ?case by simp
next
  case (Cons a argss)
  from fallback_call_stored [OF Cons.prems, of rt a]
  obtain ev r where c: "fallback_call rt w a = (w, ev, r)" and ev: "CallCompiledFn \<notin> set ev"
    by blast
  from Cons.IH [OF Cons.prems] c ev show ?case
    by (auto split: prod.splits)
qed

text \<open>
  C9. A wrapper starts with no partial program. The first invocation, when the static
  function and its \<^verbatim>\<open>get_concrete_program\<close> return, stores the concrete program and the
  partial program; an invocation that returns outputs from a wrapper without a partial
  program has stored both. Once a partial program is stored, every invocation leaves
  the wrapper as it is, never calls the static function, and calls the stored partial
  program (unless the debug print of log level 4 raised before the call was reached);
  the same holds over any sequence of invocations.
\<close>

theorem fallback_wrapper_memoizes:
  "partial_program (FallbackWrapper_init cfn sir) = None
   \<and> (partial_program w = None \<and> call_compiled_fn rt (compiled_fn w) args = Inr raw
        \<and> get_concrete_program rt (compiled_fn w) args = Inr (cp, pp') \<longrightarrow>
      fst (fallback_call rt w args)
        = w\<lparr>concrete_program := Some cp, partial_program := Some pp'\<rparr>)
   \<and> (partial_program w = None \<and> fallback_call rt w args = (w', ev, Inr outputs) \<longrightarrow>
      partial_program w' \<noteq> None \<and> concrete_program w' \<noteq> None)
   \<and> (partial_program w = Some pp \<longrightarrow>
      fst (fallback_call rt w args) = w
      \<and> CallCompiledFn \<notin> set (fst (snd (fallback_call rt w args)))
      \<and> (log_level rt < 4 \<or> (\<exists>x. get_concrete_program rt (compiled_fn w) args = Inr x) \<longrightarrow>
           CallPartialProgram pp \<in> set (fst (snd (fallback_call rt w args))))
      \<and> partial_program (fst (fallback_calls rt w argss)) = Some pp
      \<and> CallCompiledFn \<notin> set (snd (fallback_calls rt w argss)))"
proof (intro conjI impI)
  show "partial_program (FallbackWrapper_init cfn sir) = None"
    by (simp add: FallbackWrapper_init_def)
next
  assume "partial_program w = None \<and> call_compiled_fn rt (compiled_fn w) args = Inr raw
        \<and> get_concrete_program rt (compiled_fn w) args = Inr (cp, pp')"
  then show "fst (fallback_call rt w args)
        = w\<lparr>concrete_program := Some cp, partial_program := Some pp'\<rparr>"
    by (simp add: fallback_call_first)
next
  assume a: "partial_program w = None \<and> fallback_call rt w args = (w', ev, Inr outputs)"
  then have n: "partial_program w = None"
    and c: "fallback_call rt w args = (w', ev, Inr outputs)"
    by simp_all
  from fallback_call_result [OF c]
  obtain ev2 raw' where "run_program rt w args = (w', ev2, Inr raw')"
    by blast
  from run_program_first [OF n this] obtain cp' pp'' where
    w': "w' = w\<lparr>concrete_program := Some cp', partial_program := Some pp''\<rparr>"
    by blast
  from w' show "partial_program w' \<noteq> None" by simp
  from w' show "concrete_program w' \<noteq> None" by simp
next
  assume s: "partial_program w = Some pp"
  from fallback_call_stored [OF s, of rt args]
  show "fst (fallback_call rt w args) = w" by auto
  from fallback_call_stored [OF s, of rt args]
  show "CallCompiledFn \<notin> set (fst (snd (fallback_call rt w args)))" by auto
  from fallback_calls_stored [OF s, of rt argss] s
  show "partial_program (fst (fallback_calls rt w argss)) = Some pp" by simp
  from fallback_calls_stored [OF s, of rt argss]
  show "CallCompiledFn \<notin> set (snd (fallback_calls rt w argss))" by simp
next
  assume "partial_program w = Some pp"
    and "log_level rt < 4 \<or> (\<exists>x. get_concrete_program rt (compiled_fn w) args = Inr x)"
  then show "CallPartialProgram pp \<in> set (fst (snd (fallback_call rt w args)))"
    by (rule fallback_call_stored_runs)
qed


theorem fallback_wrapper_memoizes_witness:
  "partial_program
     (fst (fallback_call
        \<lparr>call_compiled_fn = (\<lambda>f a. Inr [(''tmp_0'', a + f)]),
         get_concrete_program = (\<lambda>f a. Inr (f + 1, f + 2)),
         call_partial_program = (\<lambda>p a. Inr [(''tmp_1'', a + p)]),
         set_tensor_name = (\<lambda>t s. (s, snd t)), get_tensor_name = fst,
         need_back_trace = False, log_level = 4\<rparr>
        (FallbackWrapper_init (7::nat) ''SIR_0'') (5::nat)))
     = Some (9::nat)
   \<and> fallback_call
        \<lparr>call_compiled_fn = (\<lambda>f a. Inr [(''tmp_0'', a + f)]),
         get_concrete_program = (\<lambda>f a. Inr (f + 1, f + 2)),
         call_partial_program = (\<lambda>p a. Inr [(''tmp_1'', a + p)]),
         set_tensor_name = (\<lambda>t s. (s, snd t)), get_tensor_name = fst,
         need_back_trace = False, log_level = 4\<rparr>
        \<lparr>compiled_fn = (7::nat), partial_program = Some (9::nat),
         concrete_program = Some (8::nat), SIR = ''SIR_0''\<rparr> (6::nat)
     = (\<lparr>compiled_fn = 7, partial_program = Some 9, concrete_program = Some 8,
          SIR = ''SIR_0''\<rparr>,
        [PrintSIR ''SIR_0'', LogGetConcreteProgram, PrintTrainProgram 9,
         CallPartialProgram 9, AddSubgraph 8, PrintSuccess],
        Inr [('''', 15)])
   \<and> CallCompiledFn \<notin> set (snd (fallback_calls
        \<lparr>call_compiled_fn = (\<lambda>f a. Inr [(''tmp_0'', a + f)]),
         get_concrete_program = (\<lambda>f a. Inr (f + 1, f + 2)),
         call_partial_program = (\<lambda>p a. Inr [(''tmp_1'', a + p)]),
         set_tensor_name = (\<lambda>t s. (s, snd t)), get_tensor_name = fst,
         need_back_trace = False, log_level = 4\<rparr>
        \<lparr>compiled_fn = (7::nat), partial_program = Some (9::nat),
         concrete_program = Some (8::nat), SIR = ''SIR_0''\<rparr> [6::nat, 7]))"
  using
    fallback_wrapper_memoizes [where
      rt = "\<lparr>call_compiled_fn = (\<lambda>f a. Inr [(''tmp_0'', a + f)]),
         get_concrete_program = (\<lambda>f a. Inr (f + 1, f + 2)),
         call_partial_program = (\<lambda>p a. Inr [(''tmp_1'', a + p)]),
         set_tensor_name = (\<lambda>t s. (s, snd t)), get_tensor_name = fst,
         need_back_trace = False, log_level = 4\<rparr>"
      and w = "FallbackWrapper_init (7::nat) ''SIR_0''" and args = "5::nat"
      and raw = "[(''tmp_0'', 12)]" and cp = "8::nat" and pp' = "9::nat"]
    fallback_wrapper_memoizes [where
      rt = "\<lparr>call_compiled_fn = (\<lambda>f a. Inr [(''tmp_0'', a + f)]),
         get_concrete_program = (\<lambda>f a. Inr (f + 1, f + 2)),
         call_partial_program = (\<lambda>p a. Inr [(''tmp_1'', a + p)]),
         set_tensor_name = (\<lambda>t s. (s, snd t)), get_tensor_name = fst,
         need_back_trace = False, log_level = 4\<rparr>"
      and w = "\<lparr>compiled_fn = (7::nat), partial_program = Some (9::nat),
         concrete_program = Some (8::nat), SIR = ''SIR_0''\<rparr>"
      and args = "6::nat" and pp = "9::nat" and argss = "[6::nat, 7]"]
  by (simp add: FallbackWrapper_init_def fallback_call_def run_program_def
      log_train_program_def log_subgraph_def log_do_def)

section \<open>FallbackWrapper: the names of the outputs\<close>

lemma run_program_source:
  assumes "run_program rt w args = (w', ev2, Inr raw)"
  shows "(partial_program w = None \<longrightarrow> call_compiled_fn rt (compiled_fn w) args = Inr raw)
     \<and> (\<forall>pp. partial_program w = Some pp \<longrightarrow> call_partial_program rt pp args = Inr raw)"
proof (cases "partial_program w")
  case None
  from run_program_first [OF None assms] None show ?thesis by auto
next
  case (Some pp)
  from run_program_stored [OF Some, of rt args] assms Some show ?thesis by simp
qed

text \<open>
  With a tensor class whose name getter gives a tensor a generated name when the stored
  name is empty, as the getter of Paddle's eager tensor does, the returned tensors have
  had the empty string assigned, and their names do not read as the empty string.
\<close>

theorem fallback_call_names_read_back_counterexample:
  "fallback_call
     \<lparr>call_compiled_fn = (\<lambda>f a. Inr [(''tmp_0'', a + f), (''tmp_1'', a)]),
      get_concrete_program = (\<lambda>f a. Inr (f + 1, f + 2)),
      call_partial_program = (\<lambda>p a. Inr [(''tmp_2'', a + p)]),
      set_tensor_name = (\<lambda>t s. (s, snd t)),
      get_tensor_name = (\<lambda>t. if fst t = [] then ''generated_tensor_0'' else fst t),
      need_back_trace = True, log_level = 0\<rparr>
     (FallbackWrapper_init (7::nat) ''SIR_0'') (5::nat)
   = (\<lparr>compiled_fn = 7, partial_program = Some (9::nat), concrete_program = Some (8::nat),
       SIR = ''SIR_0''\<rparr>,
      [TraceBackFrames, CallCompiledFn, GetConcreteProgram],
      Inr [('''', 12), ('''', 5)])
   \<and> map (get_tensor_name
     \<lparr>call_compiled_fn = (\<lambda>f a. Inr [(''tmp_0'', a + f), (''tmp_1'', a)]),
      get_concrete_program = (\<lambda>f a. Inr (f + 1, f + 2)),
      call_partial_program = (\<lambda>p a. Inr [(''tmp_2'', a + p)]),
      set_tensor_name = (\<lambda>t s. (s, snd t)),
      get_tensor_name = (\<lambda>t. if fst t = [] then ''generated_tensor_0'' else fst t),
      need_back_trace = True, log_level = 0\<rparr>)
        [('''', 12::nat), ('''', 5)]
     = [''generated_tensor_0'', ''generated_tensor_0'']
   \<and> get_tensor_name
     \<lparr>call_compiled_fn = (\<lambda>f a. Inr [(''tmp_0'', a + f), (''tmp_1'', a)]),
      get_concrete_program = (\<lambda>f a. Inr (f + 1, f + 2)),
      call_partial_program = (\<lambda>p a. Inr [(''tmp_2'', a + p)]),
      set_tensor_name = (\<lambda>t s. (s, snd t)),
      get_tensor_name = (\<lambda>t. if fst t = [] then ''generated_tensor_0'' else fst t),
      need_back_trace = True, log_level = 0\<rparr>
     ('''', 12::nat) \<noteq> ''''"
  by (simp add: FallbackWrapper_init_def fallback_call_def run_program_def
      log_train_program_def log_subgraph_def log_do_def)

text \<open>
  C10. Every invocation of \<^verbatim>\<open>__call__\<close> that returns has assigned the empty string to
  the name of every tensor it returns: the returned sequence is what the static function
  (first call) or the stored partial program (later calls) returned, with \<open>name = ""\<close>
  assigned to each tensor. Where the tensor class reads back an assigned empty name as
  empty, every returned tensor's name is the empty string; the assignment alone does not
  give that.
\<close>

theorem fallback_call_assigns_empty_names:
  "fallback_call rt w args = (w', ev, Inr outputs) \<longrightarrow>
     (\<exists>raw. outputs = map (\<lambda>t. set_tensor_name rt t '''') raw
        \<and> (partial_program w = None \<longrightarrow> call_compiled_fn rt (compiled_fn w) args = Inr raw)
        \<and> (\<forall>pp. partial_program w = Some pp \<longrightarrow> call_partial_program rt pp args = Inr raw))
     \<and> ((\<forall>t. get_tensor_name rt (set_tensor_name rt t '''') = '''') \<longrightarrow>
          (\<forall>t\<in>set outputs. get_tensor_name rt t = ''''))"
proof
  assume "fallback_call rt w args = (w', ev, Inr outputs)"
  from fallback_call_result [OF this]
  obtain ev2 raw where r: "run_program rt w args = (w', ev2, Inr raw)"
    and o: "outputs = clear_eager_tensor_name (set_tensor_name rt) raw"
    by blast
  from o have m: "outputs = map (\<lambda>t. set_tensor_name rt t '''') raw"
    by (simp add: clear_eager_tensor_name_map)
  from run_program_source [OF r] m
  have 1: "\<exists>raw. outputs = map (\<lambda>t. set_tensor_name rt t '''') raw
        \<and> (partial_program w = None \<longrightarrow> call_compiled_fn rt (compiled_fn w) args = Inr raw)
        \<and> (\<forall>pp. partial_program w = Some pp \<longrightarrow> call_partial_program rt pp args = Inr raw)"
    by (intro exI [of _ raw]) simp
  from m have 2: "(\<forall>t. get_tensor_name rt (set_tensor_name rt t '''') = '''') \<longrightarrow>
          (\<forall>t\<in>set outputs. get_tensor_name rt t = '''')"
    by auto
  from 1 2
  show "(\<exists>raw. outputs = map (\<lambda>t. set_tensor_name rt t '''') raw
        \<and> (partial_program w = None \<longrightarrow> call_compiled_fn rt (compiled_fn w) args = Inr raw)
        \<and> (\<forall>pp. partial_program w = Some pp \<longrightarrow> call_partial_program rt pp args = Inr raw))
     \<and> ((\<forall>t. get_tensor_name rt (set_tensor_name rt t '''') = '''') \<longrightarrow>
          (\<forall>t\<in>set outputs. get_tensor_name rt t = ''''))"
    by (rule conjI)
qed

theorem fallback_call_assigns_empty_names_witness:
  "fallback_call
     \<lparr>call_compiled_fn = (\<lambda>f a. Inr [(''tmp_0'', a + f), (''tmp_1'', a)]),
      get_concrete_program = (\<lambda>f a. Inr (f + 1, f + 2)),
      call_partial_program = (\<lambda>p a. Inr [(''tmp_2'', a + p)]),
      set_tensor_name = (\<lambda>t s. (s, snd t)), get_tensor_name = fst,
      need_back_trace = True, log_level = 0\<rparr>
     (FallbackWrapper_init (7::nat) ''SIR_0'') (5::nat)
   = (\<lparr>compiled_fn = 7, partial_program = Some (9::nat), concrete_program = Some (8::nat),
       SIR = ''SIR_0''\<rparr>,
      [TraceBackFrames, CallCompiledFn, GetConcreteProgram],
      Inr [('''', 12), ('''', 5)])
   \<and> (\<forall>t::string \<times> nat. fst (('''', snd t)) = '''')
   \<and> map fst [('''', 12::nat), ('''', 5)] = ['''', '''']"
  using
    fallback_call_assigns_empty_names [where
      rt = "\<lparr>call_compiled_fn = (\<lambda>f a. Inr [(''tmp_0'', a + f), (''tmp_1'', a)]),
         get_concrete_program = (\<lambda>f a. Inr (f + 1, f + 2)),
         call_partial_program = (\<lambda>p a. Inr [(''tmp_2'', a + p)]),
         set_tensor_name = (\<lambda>t s. (s, snd t)), get_tensor_name = fst,
         need_back_trace = True, log_level = 0\<rparr>"
      and w = "FallbackWrapper_init (7::nat) ''SIR_0''" and args = "5::nat"
      and w' = "\<lparr>compiled_fn = 7, partial_program = Some (9::nat),
         concrete_program = Some (8::nat), SIR = ''SIR_0''\<rparr>"
      and ev = "[TraceBackFrames, CallCompiledFn, GetConcreteProgram]"
      and outputs = "[('''', 12), ('''', 5)]"]
  by (simp add: FallbackWrapper_init_def fallback_call_def run_program_def
      log_train_program_def log_subgraph_def log_do_def)

section \<open>CompileSIRCache: the key\<close>

text \<open>
  C7. The key of a cache entry is the hash of the string form of the SIR that the context
  holds under the given name (when the context has no such SIR, \<^verbatim>\<open>get_sir\<close> raises and
  so does \<^verbatim>\<open>key_fn\<close>). So two contexts whose named SIRs have the same string form get the
  same key, whatever the names and the keyword arguments.
\<close>

theorem key_fn_hash_of_sir_string:
  "key_fn env ctx sir_name kwargs =
     (case get_sir env ctx sir_name of
        Inl e \<Rightarrow> Inl e
      | Inr sir \<Rightarrow> Inr (py_hash env (py_str env sir)))
   \<and> (get_sir env c1 n1 = Inr s1 \<and> get_sir env c2 n2 = Inr s2
        \<and> py_str env s1 = py_str env s2 \<longrightarrow>
      key_fn env c1 n1 kw1 = Inr (py_hash env (py_str env s1))
      \<and> key_fn env c2 n2 kw2 = key_fn env c1 n1 kw1)"
  by (simp add: key_fn_def Let_def split: sum.split)

theorem key_fn_hash_of_sir_string_witness:
  "key_fn
     \<lparr>get_sir = (\<lambda>c n. case map_of c n of None \<Rightarrow> Inl ''KeyError'' | Some s \<Rightarrow> Inr s),
      py_str = fst, py_hash = (\<lambda>s. int (length s)),
      compile_sir = (\<lambda>c n. n), to_static = (\<lambda>f bs be fb. (f, bs, be, fb))\<rparr>
     [(''SIR_0'', (''a = b + c'', 1::nat))] ''SIR_0'' (Map.empty :: string \<rightharpoonup> nat)
   = Inr 9
   \<and> key_fn
     \<lparr>get_sir = (\<lambda>c n. case map_of c n of None \<Rightarrow> Inl ''KeyError'' | Some s \<Rightarrow> Inr s),
      py_str = fst, py_hash = (\<lambda>s. int (length s)),
      compile_sir = (\<lambda>c n. n), to_static = (\<lambda>f bs be fb. (f, bs, be, fb))\<rparr>
     [(''SIR_3'', (''x = y'', 0)), (''SIR_4'', (''a = b + c'', 2::nat))] ''SIR_4''
     [''backend'' \<mapsto> (1::nat)]
   = Inr 9"
  using
    key_fn_hash_of_sir_string [where
      env = "\<lparr>get_sir = (\<lambda>c n. case map_of c n of None \<Rightarrow> Inl ''KeyError'' | Some s \<Rightarrow> Inr s),
        py_str = fst, py_hash = (\<lambda>s. int (length s)),
        compile_sir = (\<lambda>c n. n), to_static = (\<lambda>f bs be fb. (f, bs, be, fb))\<rparr>"
      and ?c1.0 = "[(''SIR_0'', (''a = b + c'', 1::nat))]" and ?n1.0 = "''SIR_0''"
      and ?s1.0 = "(''a = b + c'', 1::nat)"
      and ?c2.0 = "[(''SIR_3'', (''x = y'', 0)), (''SIR_4'', (''a = b + c'', 2::nat))]"
      and ?n2.0 = "''SIR_4''" and ?s2.0 = "(''a = b + c'', 2::nat)"
      and ?kw1.0 = "Map.empty :: string \<rightharpoonup> nat" and ?kw2.0 = "[''backend'' \<mapsto> (1::nat)]"]
  by simp

text \<open>
  C8. The key does not depend on the keyword arguments: two calls of \<^verbatim>\<open>key_fn\<close> with the
  same context and SIR name give the same key whatever \<^verbatim>\<open>build_strategy\<close> and
  \<^verbatim>\<open>backend\<close> are. The value does depend on them: \<^verbatim>\<open>value_fn\<close> hands both to
  \<^verbatim>\<open>to_static\<close>. So once a request has put a wrapper into the cache, a request for the
  same context and name under other keyword arguments gets that same wrapper back.
\<close>

theorem key_fn_ignores_kwargs:
  "key_fn env ctx sir_name kwargs1 = key_fn env ctx sir_name kwargs2
   \<and> (get_sir env ctx sir_name = Inr sir \<longrightarrow>
      value_fn env ctx sir_name kwargs1 =
        Inr (FallbackWrapper_init
          (to_static env (compile_sir env ctx sir_name)
             (kwargs1 ''build_strategy'') (kwargs1 ''backend'') False) sir))
   \<and> (cache_call env cache ctx sir_name kwargs1 = (cache1, Inr v) \<longrightarrow>
      cache_call env cache1 ctx sir_name kwargs2 = (cache1, Inr v))
   \<and> (key_fn env ctx sir_name kwargs1 = Inr k \<and> cache k = None
        \<and> value_fn env ctx sir_name kwargs1 = Inr v' \<longrightarrow>
      cache_call env cache ctx sir_name kwargs1 = (cache(k \<mapsto> v'), Inr v')
      \<and> cache_call env (cache(k \<mapsto> v')) ctx sir_name kwargs2 = (cache(k \<mapsto> v'), Inr v'))"
proof (intro conjI impI)
  show k: "key_fn env ctx sir_name kwargs1 = key_fn env ctx sir_name kwargs2"
    by (simp add: key_fn_def Let_def split: sum.split)
  show "value_fn env ctx sir_name kwargs1 =
        Inr (FallbackWrapper_init
          (to_static env (compile_sir env ctx sir_name)
             (kwargs1 ''build_strategy'') (kwargs1 ''backend'') False) sir)"
    if "get_sir env ctx sir_name = Inr sir"
    using that by (simp add: value_fn_def)
  show "cache_call env cache1 ctx sir_name kwargs2 = (cache1, Inr v)"
    if c: "cache_call env cache ctx sir_name kwargs1 = (cache1, Inr v)"
  proof (cases "key_fn env ctx sir_name kwargs1")
    case (Inl e)
    with c show ?thesis by (simp add: cache_call_def)
  next
    case (Inr key)
    with k have k2: "key_fn env ctx sir_name kwargs2 = Inr key" by simp
    show ?thesis
    proof (cases "cache key")
      case (Some stored)
      with c Inr k2 show ?thesis by (auto simp: cache_call_def)
    next
      case None
      with c Inr k2 show ?thesis
        by (auto simp: cache_call_def split: sum.splits)
    qed
  qed
  show "cache_call env cache ctx sir_name kwargs1 = (cache(k \<mapsto> v'), Inr v')"
    if "key_fn env ctx sir_name kwargs1 = Inr k \<and> cache k = None
        \<and> value_fn env ctx sir_name kwargs1 = Inr v'"
    using that by (simp add: cache_call_def)
  show "cache_call env (cache(k \<mapsto> v')) ctx sir_name kwargs2 = (cache(k \<mapsto> v'), Inr v')"
    if "key_fn env ctx sir_name kwargs1 = Inr k \<and> cache k = None
        \<and> value_fn env ctx sir_name kwargs1 = Inr v'"
    using that k by (simp add: cache_call_def)
qed

theorem key_fn_ignores_kwargs_witness:
  "key_fn
     \<lparr>get_sir = (\<lambda>c n. case map_of c n of None \<Rightarrow> Inl ''KeyError'' | Some s \<Rightarrow> Inr s),
      py_str = fst, py_hash = (\<lambda>s. int (length s)),
      compile_sir = (\<lambda>c n. n), to_static = (\<lambda>f bs be fb. (f, bs, be, fb))\<rparr>
     [(''SIR_0'', (''a = b + c'', 1::nat))] ''SIR_0'' [''build_strategy'' \<mapsto> (1::nat)]
   = Inr 9
   \<and> (value_fn
     \<lparr>get_sir = (\<lambda>c n. case map_of c n of None \<Rightarrow> Inl ''KeyError'' | Some s \<Rightarrow> Inr s),
      py_str = fst, py_hash = (\<lambda>s. int (length s)),
      compile_sir = (\<lambda>c n. n), to_static = (\<lambda>f bs be fb. (f, bs, be, fb))\<rparr>
     [(''SIR_0'', (''a = b + c'', 1::nat))] ''SIR_0'' [''build_strategy'' \<mapsto> (1::nat)]
     :: exn + (string \<times> nat option \<times> nat option \<times> bool, nat, nat, string \<times> nat) fallback_wrapper)
   = Inr (FallbackWrapper_init (''SIR_0'', Some 1, None, False) (''a = b + c'', 1))
   \<and> cache_call
     \<lparr>get_sir = (\<lambda>c n. case map_of c n of None \<Rightarrow> Inl ''KeyError'' | Some s \<Rightarrow> Inr s),
      py_str = fst, py_hash = (\<lambda>s. int (length s)),
      compile_sir = (\<lambda>c n. n), to_static = (\<lambda>f bs be fb. (f, bs, be, fb))\<rparr>
     [9 \<mapsto> (FallbackWrapper_init (''SIR_0'', Some 1, None, False) (''a = b + c'', 1)
             :: (string \<times> nat option \<times> nat option \<times> bool, nat, nat, string \<times> nat) fallback_wrapper)]
     [(''SIR_0'', (''a = b + c'', 1::nat))] ''SIR_0'' [''build_strategy'' \<mapsto> (2::nat)]
   = ([9 \<mapsto> FallbackWrapper_init (''SIR_0'', Some 1, None, False) (''a = b + c'', 1)],
      Inr (FallbackWrapper_init (''SIR_0'', Some 1, None, False) (''a = b + c'', 1)))"
proof -
  let ?env = "\<lparr>get_sir = (\<lambda>c n. case map_of c n of None \<Rightarrow> Inl ''KeyError'' | Some s \<Rightarrow> Inr s),
      py_str = fst, py_hash = (\<lambda>s. int (length s)),
      compile_sir = (\<lambda>c n. n), to_static = (\<lambda>f bs be fb. (f, bs, be, fb))\<rparr>
      :: ((string \<times> string \<times> nat) list, string \<times> nat, string, nat,
          string \<times> nat option \<times> nat option \<times> bool) symbolic_env"
  let ?ctx = "[(''SIR_0'', (''a = b + c'', 1::nat))]"
  let ?w = "FallbackWrapper_init (''SIR_0'', Some 1, None, False) (''a = b + c'', 1)
      :: (string \<times> nat option \<times> nat option \<times> bool, nat, nat, string \<times> nat) fallback_wrapper"
  let ?kw1 = "[''build_strategy'' \<mapsto> (1::nat)]"
  let ?kw2 = "[''build_strategy'' \<mapsto> (2::nat)]"
  note t = key_fn_ignores_kwargs [where env = "?env" and ctx = "?ctx" and sir_name = "''SIR_0''"
      and ?kwargs1.0 = "?kw1" and ?kwargs2.0 = "?kw2" and sir = "(''a = b + c'', 1::nat)"
      and cache = "Map.empty" and k = "9" and v' = "?w"]
  note t2 = t [THEN conjunct2, THEN conjunct1, THEN mp]
  note t4 = t [THEN conjunct2, THEN conjunct2, THEN conjunct2, THEN mp, THEN conjunct2]
  have g: "get_sir ?env ?ctx ''SIR_0'' = Inr (''a = b + c'', 1)"
    by simp
  have k: "key_fn ?env ?ctx ''SIR_0'' ?kw1 = Inr 9"
    by (simp add: key_fn_def)
  from t2 [OF g] have v: "value_fn ?env ?ctx ''SIR_0'' ?kw1 = Inr ?w"
    by simp
  have e: "Map.empty 9 = (None :: (string \<times> nat option \<times> nat option \<times> bool, nat, nat,
      string \<times> nat) fallback_wrapper option)"
    by simp
  from t4 [OF conjI [OF k conjI [OF e v]]]
  have c: "cache_call ?env [9 \<mapsto> ?w] ?ctx ''SIR_0'' ?kw2 = ([9 \<mapsto> ?w], Inr ?w)" .
  from k v c show ?thesis by (intro conjI)
qed


end
